theory Spec2Isabelle
  imports Main "HOL-Library.Sublist"
begin

section \<open>The Hyper-V execution module \<^verbatim>\<open>_modules/hyperv.py\<close>\<close>

text \<open>
  The module builds PowerShell command lines, hands them to the host through the two
  entries \<^verbatim>\<open>cmd.run\<close> and \<^verbatim>\<open>cmd.run_all\<close> of the dispatch table
  \<^verbatim>\<open>__salt__\<close>, and decodes the JSON text that comes back. The embedding makes
  every effect a value: an exception is the left summand of a result, and each call
  into the host is appended to a log, so that ``nothing was executed'' is a statement
  about that log.
\<close>

subsection \<open>Text\<close>

text \<open>
  A Python \<^verbatim>\<open>str\<close> is a sequence of Unicode code points, and so is the type
  \<open>str\<close> here: a list of numbers. \<open>cp\<close> is the code point of an ASCII character and
  \<open>lit\<close> the text of a literal of the source.
\<close>

type_synonym str = "nat list"

abbreviation cp :: "char \<Rightarrow> nat" where
  "cp c \<equiv> of_char c"

definition lit :: "string \<Rightarrow> str" where
  "lit s = map of_char s"

text \<open>
  \<^verbatim>\<open>s.strip()\<close> removes from both ends the code points that \<^verbatim>\<open>str.isspace\<close>
  accepts: the ASCII ones (tab to carriage return, the four separators from U+001C,
  the space) and the Unicode ones (U+0085, U+00A0, U+1680, U+2000 to U+200A, U+2028,
  U+2029, U+202F, U+205F, U+3000).
\<close>

definition py_isspace :: "nat \<Rightarrow> bool" where
  "py_isspace c =
     (c \<in> set [0x09, 0x0A, 0x0B, 0x0C, 0x0D, 0x1C, 0x1D, 0x1E, 0x1F, 0x20, 0x85, 0xA0, 0x1680,
                0x2028, 0x2029, 0x202F, 0x205F, 0x3000] \<or>
      (0x2000 \<le> c \<and> c \<le> 0x200A))"

definition py_strip :: "str \<Rightarrow> str" where
  "py_strip s = rev (dropWhile py_isspace (rev (dropWhile py_isspace s)))"

text \<open>
  \<^verbatim>\<open>repr\<close> of a text, after \<^verbatim>\<open>unicode_repr\<close> of the interpreter: the quote is
  the double one when the text has a single quote and no double quote, the single one
  otherwise; the quote and the backslash are escaped, tab, line feed and carriage
  return have their letters, the other ASCII control characters are written
  \<^verbatim>\<open>\xhh\<close>, and a code point from 128 is copied when it is printable and written
  \<^verbatim>\<open>\xhh\<close>, \<^verbatim>\<open>\uhhhh\<close> or \<^verbatim>\<open>\Uhhhhhhhh\<close> when it is not. Which code points
  from 128 are printable is a table of the interpreter's Unicode database: it is the
  parameter \<open>printable\<close>.
\<close>

definition hexdigit :: "nat \<Rightarrow> nat" where
  "hexdigit d = (if d < 10 then cp CHR ''0'' + d else cp CHR ''a'' + (d - 10))"

fun hex_fixed :: "nat \<Rightarrow> nat \<Rightarrow> str" where
  "hex_fixed 0 n = []"
| "hex_fixed (Suc k) n = hex_fixed k (n div 16) @ [hexdigit (n mod 16)]"

definition repr_char :: "(nat \<Rightarrow> bool) \<Rightarrow> nat \<Rightarrow> nat \<Rightarrow> str" where
  "repr_char printable quote ch =
     (if ch = quote \<or> ch = 0x5C then [0x5C, ch]
      else if ch = 0x09 then [0x5C, cp CHR ''t'']
      else if ch = 0x0A then [0x5C, cp CHR ''n'']
      else if ch = 0x0D then [0x5C, cp CHR ''r'']
      else if ch < 0x20 \<or> ch = 0x7F then [0x5C, cp CHR ''x''] @ hex_fixed 2 ch
      else if ch < 0x7F then [ch]
      else if printable ch then [ch]
      else if ch \<le> 0xFF then [0x5C, cp CHR ''x''] @ hex_fixed 2 ch
      else if ch \<le> 0xFFFF then [0x5C, cp CHR ''u''] @ hex_fixed 4 ch
      else [0x5C, cp CHR ''U''] @ hex_fixed 8 ch)"

definition py_repr :: "(nat \<Rightarrow> bool) \<Rightarrow> str \<Rightarrow> str" where
  "py_repr printable s =
     (let quote = (if 0x27 \<in> set s \<and> 0x22 \<notin> set s then 0x22 else 0x27)
      in [quote] @ concat (map (repr_char printable quote) s) @ [quote])"

text \<open>\<^verbatim>\<open>repr\<close> of an integer: its decimal digits, after the sign when it is negative.\<close>

fun digits :: "nat \<Rightarrow> str" where
  "digits n = (if n < 10 then [cp CHR ''0'' + n] else digits (n div 10) @ [cp CHR ''0'' + n mod 10])"

definition py_repr_int :: "int \<Rightarrow> str" where
  "py_repr_int i = (if i < 0 then [cp CHR ''-''] @ digits (nat (- i)) else digits (nat i))"

subsection \<open>Values, errors and the host\<close>

text \<open>
  The dictionary returned by \<^verbatim>\<open>cmd.run_all\<close>: its four items, in the order
  \<^verbatim>\<open>pid\<close>, \<^verbatim>\<open>retcode\<close>, \<^verbatim>\<open>stdout\<close>, \<^verbatim>\<open>stderr\<close>.
\<close>

record exec_result =
  pid :: nat
  retcode :: int
  stdout :: str
  stderr :: str

text \<open>
  \<^verbatim>\<open>str(ret)\<close> of that dictionary: the items in their order, each key and each value
  by its \<^verbatim>\<open>repr\<close>, between braces.
\<close>

definition py_str_dict :: "(nat \<Rightarrow> bool) \<Rightarrow> exec_result \<Rightarrow> str" where
  "py_str_dict printable ret =
     lit ''{'' @
     py_repr printable (lit ''pid'') @ lit '': '' @ digits (pid ret) @ lit '', '' @
     py_repr printable (lit ''retcode'') @ lit '': '' @ py_repr_int (retcode ret) @ lit '', '' @
     py_repr printable (lit ''stdout'') @ lit '': '' @ py_repr printable (stdout ret) @ lit '', '' @
     py_repr printable (lit ''stderr'') @ lit '': '' @ py_repr printable (stderr ret) @
     lit ''}''"

text \<open>
  What \<^verbatim>\<open>json.loads\<close> returns. A Python \<^verbatim>\<open>dict\<close> is kept as the list of its
  items in insertion order, with one entry for each key; a number written with a fraction
  or an exponent (a Python \<^verbatim>\<open>float\<close>) is kept as the literal that was read,
  since floating point is not modelled.
\<close>

datatype json =
    JNull
  | JBool bool
  | JInt int
  | JFloat str
  | JStr str
  | JArray "json list"
  | JObject "(str \<times> json) list"

text \<open>
  Why the JSON decoder gives up. The message of its exception is this reason followed by
  the position in the input; no function of the module reads it.
\<close>

datatype decode_error =
    Expecting_value
  | Expecting_comma_delimiter
  | Expecting_colon_delimiter
  | Expecting_property_name
  | Unterminated_string
  | Invalid_escape
  | Invalid_uXXXX_escape
  | Invalid_control_character
  | Extra_data

text \<open>
  The exceptions that can travel through the module, each of the first two with its
  message. \<open>ValueError\<close> is what the JSON decoder raises, and \<open>HostException\<close> stands
  for anything raised inside a host call.
\<close>

datatype error =
    SaltInvocationError str
  | CommandExecutionError str
  | ValueError decode_error
  | HostException str

text \<open>The values the functions of the module return to their callers.\<close>

datatype pyval =
    PNone
  | PBool bool
  | PStr str
  | PJson json

text \<open>
  What a call runs in. The two capabilities taken from \<^verbatim>\<open>__salt__\<close>:
  \<^verbatim>\<open>cmd.run(args, python_shell)\<close> gives the output text of a command, and
  \<^verbatim>\<open>cmd.run_all(cmd, shell, python_shell)\<close> gives the whole result dictionary;
  either may raise. And the interpreter's table of the printable code points from 128,
  which \<^verbatim>\<open>repr\<close> consults.
\<close>

record host =
  cmd_run :: "str list \<Rightarrow> bool \<Rightarrow> error + str"
  cmd_run_all :: "str \<Rightarrow> str \<Rightarrow> bool \<Rightarrow> error + exec_result"
  isprintable :: "nat \<Rightarrow> bool"

text \<open>One entry of the log for every call into the host, with the arguments passed.\<close>

datatype call =
    Cmd_run "str list" bool
  | Cmd_run_all str str bool

subsection \<open>The JSON decoder\<close>

text \<open>
  \<^verbatim>\<open>json.loads\<close>, after the decoder of the interpreter's standard library: the
  scanner works on the rest of the input and returns the value together with what is
  left. Whitespace between tokens is space, tab, line feed and carriage return, and a
  digit is one of the ten ASCII digits.
\<close>

definition json_ws :: "nat \<Rightarrow> bool" where
  "json_ws c = (c \<in> set [0x20, 0x09, 0x0A, 0x0D])"

definition skip_ws :: "str \<Rightarrow> str" where
  "skip_ws s = dropWhile json_ws s"

definition is_digit :: "nat \<Rightarrow> bool" where
  "is_digit c = (cp CHR ''0'' \<le> c \<and> c \<le> cp CHR ''9'')"

definition digits_val :: "str \<Rightarrow> nat" where
  "digits_val ds = foldl (\<lambda>n c. 10 * n + (c - cp CHR ''0'')) 0 ds"

definition hex_val :: "nat \<Rightarrow> nat option" where
  "hex_val c =
     (if cp CHR ''0'' \<le> c \<and> c \<le> cp CHR ''9'' then Some (c - cp CHR ''0'')
      else if cp CHR ''A'' \<le> c \<and> c \<le> cp CHR ''F'' then Some (c - cp CHR ''A'' + 10)
      else if cp CHR ''a'' \<le> c \<and> c \<le> cp CHR ''f'' then Some (c - cp CHR ''a'' + 10)
      else None)"

text \<open>The four hexadecimal digits after \<^verbatim>\<open>\u\<close>.\<close>

definition decode_uXXXX :: "str \<Rightarrow> error + nat" where
  "decode_uXXXX s =
     (case map hex_val (take 4 s) of
        [Some a, Some b, Some c, Some d] \<Rightarrow> Inr (((a * 16 + b) * 16 + c) * 16 + d)
      | _ \<Rightarrow> Inl (ValueError Invalid_uXXXX_escape))"

text \<open>
  The code point of a \<^verbatim>\<open>\u\<close> escape and the number of characters it takes after
  the \<^verbatim>\<open>u\<close>: four, or ten when a high surrogate is followed by the escape of a
  low one and the two are joined.
\<close>

definition scan_uescape :: "str \<Rightarrow> error + nat \<times> nat" where
  "scan_uescape r =
     (case decode_uXXXX r of
        Inl e \<Rightarrow> Inl e
      | Inr uni \<Rightarrow>
          if 0xD800 \<le> uni \<and> uni \<le> 0xDBFF \<and> take 2 (drop 4 r) = [0x5C, cp CHR ''u''] then
            (case decode_uXXXX (drop 6 r) of
               Inl e \<Rightarrow> Inl e
             | Inr uni2 \<Rightarrow>
                 if 0xDC00 \<le> uni2 \<and> uni2 \<le> 0xDFFF then
                   Inr (0x10000 + ((uni - 0xD800) * 1024 + (uni2 - 0xDC00)), 10)
                 else Inr (uni, 4))
          else Inr (uni, 4))"

text \<open>The table of the one-letter escapes.\<close>

definition BACKSLASH :: "nat \<rightharpoonup> nat" where
  "BACKSLASH = map_of
     [(0x22, 0x22), (0x5C, 0x5C), (cp CHR ''/'', cp CHR ''/''),
      (cp CHR ''b'', 0x08), (cp CHR ''f'', 0x0C), (cp CHR ''n'', 0x0A),
      (cp CHR ''r'', 0x0D), (cp CHR ''t'', 0x09)]"

text \<open>
  \<^verbatim>\<open>scanstring\<close> in strict mode, entered after the opening quote: the text up to the
  closing quote, escapes replaced, and the input after that quote. A control character
  inside the string is an error.
\<close>

fun scanstring :: "str \<Rightarrow> str \<Rightarrow> error + str \<times> str" where
  "scanstring acc [] = Inl (ValueError Unterminated_string)"
| "scanstring acc (c # cs) =
     (if c = 0x22 then Inr (acc, cs)
      else if c = 0x5C then
        (case cs of
           [] \<Rightarrow> Inl (ValueError Unterminated_string)
         | esc # r \<Rightarrow>
             if esc \<noteq> cp CHR ''u'' then
               (case BACKSLASH esc of
                  None \<Rightarrow> Inl (ValueError Invalid_escape)
                | Some ch \<Rightarrow> scanstring (acc @ [ch]) r)
             else
               (case scan_uescape r of
                  Inl e \<Rightarrow> Inl e
                | Inr (uni, n) \<Rightarrow> scanstring (acc @ [uni]) (drop n r)))
      else if c < 0x20 then Inl (ValueError Invalid_control_character)
      else scanstring (acc @ [c]) cs)"

text \<open>
  The number pattern \<^verbatim>\<open>(-?(?:0|[1-9]\d*))(\.\d+)?([eE][-+]?\d+)?\<close>, group by group:
  each function returns the text its group matched and the input after it.
\<close>

definition match_integer :: "str \<Rightarrow> (str \<times> str) option" where
  "match_integer s =
     (let (sg, s1) =
            (case s of
               [] \<Rightarrow> ([], s)
             | c # r \<Rightarrow> if c = cp CHR ''-'' then ([c], r) else ([], s))
      in case s1 of
           [] \<Rightarrow> None
         | d # r \<Rightarrow>
             if d = cp CHR ''0'' then Some (sg @ [d], r)
             else if is_digit d then Some (sg @ d # takeWhile is_digit r, dropWhile is_digit r)
             else None)"

definition match_frac :: "str \<Rightarrow> str \<times> str" where
  "match_frac s =
     (case s of
        [] \<Rightarrow> ([], s)
      | p # r \<Rightarrow>
          if p = cp CHR ''.'' \<and> takeWhile is_digit r \<noteq> [] then
            (p # takeWhile is_digit r, dropWhile is_digit r)
          else ([], s))"

definition match_exp :: "str \<Rightarrow> str \<times> str" where
  "match_exp s =
     (case s of
        [] \<Rightarrow> ([], s)
      | e # r \<Rightarrow>
          if e = cp CHR ''e'' \<or> e = cp CHR ''E'' then
            (let (sg, r1) =
                   (case r of
                      [] \<Rightarrow> ([], r)
                    | c # r' \<Rightarrow>
                        if c = cp CHR ''-'' \<or> c = cp CHR ''+'' then ([c], r') else ([], r))
             in if takeWhile is_digit r1 = [] then ([], s)
                else (e # sg @ takeWhile is_digit r1, dropWhile is_digit r1))
          else ([], s))"

definition parse_int :: "str \<Rightarrow> int" where
  "parse_int s =
     (case s of
        [] \<Rightarrow> 0
      | c # r \<Rightarrow> if c = cp CHR ''-'' then - int (digits_val r) else int (digits_val s))"

definition match_number :: "str \<Rightarrow> (json \<times> str) option" where
  "match_number s =
     (case match_integer s of
        None \<Rightarrow> None
      | Some (integer, s1) \<Rightarrow>
          (let (frac, s2) = match_frac s1;
               (ex, s3) = match_exp s2
           in if frac = [] \<and> ex = [] then Some (JInt (parse_int integer), s3)
              else Some (JFloat (integer @ frac @ ex), s3)))"

text \<open>\<^verbatim>\<open>dict(pairs)\<close>, one pair at a time: a repeated key keeps its place and takes the later value.\<close>

definition dict_set :: "(str \<times> json) list \<Rightarrow> str \<Rightarrow> json \<Rightarrow> (str \<times> json) list" where
  "dict_set d k v =
     (if k \<in> fst ` set d then map (\<lambda>(k', v'). if k' = k then (k', v) else (k', v')) d
      else d @ [(k, v)])"

text \<open>
  What the termination of the scanner rests on: skipping whitespace never lengthens the
  input, and a string that is read takes at least its closing quote.
\<close>

lemma skip_ws_le: "length (skip_ws s) \<le> length s"
  by (simp add: skip_ws_def length_dropWhile_le)

lemma skip_ws_Cons: "skip_ws s = d # r \<Longrightarrow> length r < length s"
  using skip_ws_le [of s] by simp

lemma scanstring_shorter: "scanstring acc s = Inr (k, r) \<Longrightarrow> length r < length s"
proof (induction acc s rule: scanstring.induct)
  case (1 acc)
  then show ?case by simp
next
  case (2 acc c cs)
  show ?case
  proof (cases "c = 0x22")
    case True
    with "2.prems" show ?thesis by simp
  next
    case quote: False
    show ?thesis
    proof (cases "c = 0x5C")
      case False
      with quote "2.prems" "2.IH"(3) show ?thesis
        by (simp split: if_splits)
    next
      case True
      show ?thesis
      proof (cases cs)
        case Nil
        with quote True "2.prems" show ?thesis by simp
      next
        case (Cons esc r')
        show ?thesis
        proof (cases "esc = cp CHR ''u''")
          case False
          with quote True Cons "2.prems" "2.IH"(1) show ?thesis
            by (simp split: option.splits) fastforce
        next
          case u: True
          from quote True Cons u "2.prems" obtain uni n where
            uni: "scan_uescape r' = Inr (uni, n)"
            and rec: "scanstring (acc @ [uni]) (drop n r') = Inr (k, r)"
            by (auto split: sum.splits)
          from "2.IH"(2) [OF quote True Cons _ uni refl rec] u
          have "length r < length (drop n r')" by simp
          with Cons show ?thesis by simp
        qed
      qed
    qed
  qed
qed

text \<open>
  The scanner proper. \<open>scan_once\<close> reads one value at the head of the input;
  \<open>JSONArray\<close> is the loop of the array parser, entered at an element with the
  elements read so far; \<open>JSONObject\<close> is the loop of the object parser, entered
  after the opening quote of a key with the pairs read so far. The two loops go on
  only when the value they read has consumed input; \<open>scan_progress\<close> below shows
  that it always has.
\<close>

function (sequential)
  scan_once :: "str \<Rightarrow> error + json \<times> str"
  and JSONArray :: "json list \<Rightarrow> str \<Rightarrow> error + json \<times> str"
  and JSONObject :: "(str \<times> json) list \<Rightarrow> str \<Rightarrow> error + json \<times> str"
where
  "scan_once [] = Inl (ValueError Expecting_value)"
| "scan_once (c # cs) =
     (if c = 0x22 then
        (case scanstring [] cs of
           Inl e \<Rightarrow> Inl e
         | Inr (s, r) \<Rightarrow> Inr (JStr s, r))
      else if c = cp CHR ''{'' then
        (case skip_ws cs of
           [] \<Rightarrow> Inl (ValueError Expecting_property_name)
         | d # r \<Rightarrow>
             if d = cp CHR ''}'' then Inr (JObject [], r)
             else if d = 0x22 then JSONObject [] r
             else Inl (ValueError Expecting_property_name))
      else if c = cp CHR ''['' then
        (case skip_ws cs of
           [] \<Rightarrow> Inl (ValueError Expecting_value)
         | d # r \<Rightarrow>
             if d = cp CHR '']'' then Inr (JArray [], r)
             else JSONArray [] (d # r))
      else if prefix (lit ''null'') (c # cs) then Inr (JNull, drop 4 (c # cs))
      else if prefix (lit ''true'') (c # cs) then Inr (JBool True, drop 4 (c # cs))
      else if prefix (lit ''false'') (c # cs) then Inr (JBool False, drop 5 (c # cs))
      else
        (case match_number (c # cs) of
           Some res \<Rightarrow> Inr res
         | None \<Rightarrow>
             if prefix (lit ''NaN'') (c # cs) then Inr (JFloat (lit ''NaN''), drop 3 (c # cs))
             else if prefix (lit ''Infinity'') (c # cs) then
               Inr (JFloat (lit ''Infinity''), drop 8 (c # cs))
             else if prefix (lit ''-Infinity'') (c # cs) then
               Inr (JFloat (lit ''-Infinity''), drop 9 (c # cs))
             else Inl (ValueError Expecting_value)))"
| "JSONArray values s =
     (case scan_once s of
        Inl e \<Rightarrow> Inl e
      | Inr (v, r) \<Rightarrow>
          if length s \<le> length r then Inl (ValueError Expecting_value)
          else
            (case skip_ws r of
               [] \<Rightarrow> Inl (ValueError Expecting_comma_delimiter)
             | d # r' \<Rightarrow>
                 if d = cp CHR '']'' then Inr (JArray (values @ [v]), r')
                 else if d = cp CHR '','' then JSONArray (values @ [v]) (skip_ws r')
                 else Inl (ValueError Expecting_comma_delimiter)))"
| "JSONObject pairs s =
     (case scanstring [] s of
        Inl e \<Rightarrow> Inl e
      | Inr (key, r) \<Rightarrow>
          (case skip_ws r of
             [] \<Rightarrow> Inl (ValueError Expecting_colon_delimiter)
           | d # r1 \<Rightarrow>
               if d \<noteq> cp CHR '':'' then Inl (ValueError Expecting_colon_delimiter)
               else
                 (case scan_once (skip_ws r1) of
                    Inl e \<Rightarrow> Inl e
                  | Inr (v, r2) \<Rightarrow>
                      if length (skip_ws r1) \<le> length r2 then Inl (ValueError Expecting_value)
                      else
                        (case skip_ws r2 of
                           [] \<Rightarrow> Inl (ValueError Expecting_comma_delimiter)
                         | d' # r3 \<Rightarrow>
                             if d' = cp CHR ''}'' then Inr (JObject (dict_set pairs key v), r3)
                             else if d' \<noteq> cp CHR '','' then
                               Inl (ValueError Expecting_comma_delimiter)
                             else
                               (case skip_ws r3 of
                                  [] \<Rightarrow> Inl (ValueError Expecting_property_name)
                                | q # r4 \<Rightarrow>
                                    if q = 0x22 then JSONObject (dict_set pairs key v) r4
                                    else Inl (ValueError Expecting_property_name))))))"
  by pat_completeness auto

termination
proof (relation "measure (\<lambda>x. case x of
          Inl s \<Rightarrow> 2 * length s
        | Inr (Inl (vs, s)) \<Rightarrow> 2 * length s + 1
        | Inr (Inr (ps, s)) \<Rightarrow> 2 * length s + 1)", goal_cases)
  case 1
  then show ?case by simp
next
  case (2 c cs d r)
  then show ?case using skip_ws_Cons [of cs d r] by simp
next
  case (3 c cs d r)
  then show ?case using skip_ws_le [of cs] by simp
next
  case (4 vs s)
  then show ?case by simp
next
  case (5 vs s x v r d r')
  then show ?case using skip_ws_Cons [of r d r'] skip_ws_le [of r'] by simp
next
  case (6 ps s x key r d r1)
  then show ?case
    using scanstring_shorter [of "[]" s key r] skip_ws_Cons [of r d r1] skip_ws_le [of r1]
    by simp
next
  case (7 ps s x key r d r1 y v r2 d' r3 q r4)
  then show ?case
    using scanstring_shorter [of "[]" s key r] skip_ws_Cons [of r d r1] skip_ws_le [of r1]
      skip_ws_Cons [of r2 d' r3] skip_ws_Cons [of r3 q r4]
    by simp
qed

text \<open>
  \<^verbatim>\<open>json.loads(s)\<close>: whitespace, one value, whitespace, and nothing more.
\<close>

definition json_loads :: "str \<Rightarrow> error + json" where
  "json_loads s =
     (case scan_once (skip_ws s) of
        Inl e \<Rightarrow> Inl e
      | Inr (obj, r) \<Rightarrow> if skip_ws r = [] then Inr obj else Inl (ValueError Extra_data))"

text \<open>\<^verbatim>\<open>isinstance(x, list)\<close> on a decoded value.\<close>

definition isinstance_list :: "json \<Rightarrow> bool" where
  "isinstance_list x = (case x of JArray _ \<Rightarrow> True | _ \<Rightarrow> False)"

subsection \<open>The module\<close>

definition SWITCH_TYPES :: "nat \<rightharpoonup> str" where
  "SWITCH_TYPES = map_of [(0, lit ''external''), (1, lit ''internal''), (2, lit ''private'')]"

text \<open>\<^verbatim>\<open>_SWITCH_TYPES.values()\<close>.\<close>

definition SWITCH_TYPES_values :: "str list" where
  "SWITCH_TYPES_values = map (\<lambda>k. the (SWITCH_TYPES k)) [0, 1, 2]"

text \<open>
  \<^verbatim>\<open>_has_powershell\<close>: one call of \<^verbatim>\<open>cmd.run\<close>, and the test whether the word
  occurs in its output.
\<close>

definition has_powershell :: "host \<Rightarrow> (error + bool) \<times> call list" where
  "has_powershell h =
     (case cmd_run h [lit ''where'', lit ''powershell''] False of
        Inl e \<Rightarrow> (Inl e, [Cmd_run [lit ''where'', lit ''powershell''] False])
      | Inr out \<Rightarrow>
          (Inr (sublist (lit ''powershell'') out), [Cmd_run [lit ''where'', lit ''powershell''] False]))"

text \<open>
  \<^verbatim>\<open>_psrun\<close>. Where the availability test is false the body of the \<^verbatim>\<open>if\<close> is
  skipped and the function ends without a \<^verbatim>\<open>return\<close>: its value is \<^verbatim>\<open>None\<close>.
  The message of the execution error is \<^verbatim>\<open>str(ret)\<close>.
\<close>

definition psrun :: "host \<Rightarrow> str \<Rightarrow> bool \<Rightarrow> (error + pyval) \<times> call list" where
  "psrun h cmd json_output =
     (case has_powershell h of
        (Inl e, log) \<Rightarrow> (Inl e, log)
      | (Inr False, log) \<Rightarrow> (Inr PNone, log)
      | (Inr True, log) \<Rightarrow>
          (let cmd = (if json_output then cmd @ lit '' | ConvertTo-Json -Depth 1 -Compress'' else cmd);
               log = log @ [Cmd_run_all cmd (lit ''powershell'') False]
           in case cmd_run_all h cmd (lit ''powershell'') False of
                Inl e \<Rightarrow> (Inl e, log)
              | Inr ret \<Rightarrow>
                  if retcode ret = 0 then
                    (if json_output then
                      (let out = (if length (py_strip (stdout ret)) = 0 then lit ''[]'' else stdout ret)
                       in case json_loads out of
                            Inl e \<Rightarrow> (Inl e, log)
                          | Inr x \<Rightarrow>
                              (Inr (PJson (if \<not> isinstance_list x then JArray [x] else x)), log))
                    else (Inr (PStr (stdout ret)), log))
                  else (Inl (CommandExecutionError (py_str_dict (isprintable h) ret)), log)))"

text \<open>
  \<^verbatim>\<open>add_vswitch(name, switchtype, **kwargs)\<close>. An argument may be \<^verbatim>\<open>None\<close>; the
  keyword arguments are a dictionary from names to the text they are formatted as. The
  bare \<^verbatim>\<open>except:\<close> around the call of \<^verbatim>\<open>_psrun\<close> catches every exception.
  \<open>built\<close> is the command line once the flags of the switch type are added, or the
  exception raised on the way there.
\<close>

definition add_vswitch ::
  "host \<Rightarrow> str option \<Rightarrow> str option \<Rightarrow> (str \<rightharpoonup> str) \<Rightarrow> (error + pyval) \<times> call list"
where
  "add_vswitch h name switchtype kwargs =
     (let cmd = lit ''New-VMSwitch'' in
      case name of
        None \<Rightarrow> (Inl (SaltInvocationError (lit ''vswitch name not specified'')), [])
      | Some n \<Rightarrow>
          if 0 < length (py_strip n) then
            (let cmd = cmd @ lit '' -Name '' @ n in
             (case switchtype of
               None \<Rightarrow> (Inl (SaltInvocationError (lit ''vswitch type not specified'')), [])
             | Some st \<Rightarrow>
                 if 0 < length (py_strip st) then
                   (if st \<notin> set SWITCH_TYPES_values then
                     (Inl (SaltInvocationError (lit ''switchtype '' @ st @ lit '' not supported'')), [])
                   else
                     (let built =
                        (if st = the (SWITCH_TYPES 0) then
                           (case kwargs (lit ''interface'') of
                              None \<Rightarrow>
                                Inl (SaltInvocationError
                                  (lit ''no interface name specified for external vswitch''))
                            | Some interface \<Rightarrow> Inr (cmd @ lit '' -NetAdapterName '' @ interface))
                         else if st \<in> set [the (SWITCH_TYPES 1), the (SWITCH_TYPES 2)] then
                           Inr (cmd @ lit '' -SwitchType '' @ st)
                         else Inr cmd)
                      in case built of
                           Inl e \<Rightarrow> (Inl e, [])
                         | Inr cmd \<Rightarrow>
                             (case psrun h cmd True of
                                (Inl e, log) \<Rightarrow> (Inr (PBool False), log)
                              | (Inr r, log) \<Rightarrow> (Inr (PBool True), log))))
                 else (Inl (SaltInvocationError (lit ''vswitch type not specified'')), [])))
          else (Inl (SaltInvocationError (lit ''vswitch name not specified'')), []))"

text \<open>\<^verbatim>\<open>remove_vswitch(name, **kwargs)\<close>.\<close>

definition remove_vswitch ::
  "host \<Rightarrow> str option \<Rightarrow> (str \<rightharpoonup> str) \<Rightarrow> (error + pyval) \<times> call list"
where
  "remove_vswitch h name kwargs =
     (let cmd = lit ''Remove-VMSwitch -Force'' in
      case name of
        None \<Rightarrow> (Inl (SaltInvocationError (lit ''vswitch name not specified'')), [])
      | Some n \<Rightarrow>
          if 0 < length (py_strip n) then
            (let cmd = cmd @ lit '' -Name '' @ n in
             case psrun h cmd True of
               (Inl e, log) \<Rightarrow> (Inr (PBool False), log)
             | (Inr r, log) \<Rightarrow> (Inr (PBool True), log))
          else (Inl (SaltInvocationError (lit ''vswitch name not specified'')), []))"

text \<open>
  \<^verbatim>\<open>set_netadapter(tgt, tgt_type='mac', **kwargs)\<close>: the selector and its kind are
  text, the keyword arguments as before.
\<close>

definition filter_properties :: "str \<rightharpoonup> str" where
  "filter_properties = map_of [(lit ''mac'', lit ''MacAddress''), (lit ''name'', lit ''Name'')]"

definition set_netadapter ::
  "host \<Rightarrow> str \<Rightarrow> str \<Rightarrow> (str \<rightharpoonup> str) \<Rightarrow> (error + pyval) \<times> call list"
where
  \<open>set_netadapter h tgt tgt_type kwargs =
     (case filter_properties tgt_type of
        None \<Rightarrow>
          (Inl (SaltInvocationError (lit ''tgt_type '' @ tgt_type @ lit '' is not allowed'')), [])
      | Some property \<Rightarrow>
          (let get_cmd =
                 lit ''Get-NetAdapter -Physical | Where {$_.'' @ property @ lit '' -eq "'' @ tgt @
                 lit ''"}'';
               rename_cmd =
                 (case kwargs (lit ''name'') of
                    None \<Rightarrow> None
                  | Some new_name \<Rightarrow>
                      Some (lit ''Rename-NetAdapter'' @ lit '' -NewName '' @ new_name @
                        lit '' -PassThru''));
               set_cmd =
                 (case kwargs (lit ''vlan'') of
                    None \<Rightarrow> None
                  | Some vlan \<Rightarrow>
                      Some (lit ''Set-NetAdapter'' @ lit '' -VlanID '' @ vlan @ lit '' -PassThru''))
           in case (rename_cmd, set_cmd) of
                (Some rn, Some st) \<Rightarrow> psrun h (get_cmd @ lit '' | '' @ rn @ lit '' | '' @ st) True
              | (Some rn, None) \<Rightarrow> psrun h (get_cmd @ lit '' | '' @ rn) True
              | (None, Some st) \<Rightarrow> psrun h (get_cmd @ lit '' | '' @ st) True
              | (None, None) \<Rightarrow> (Inr (PBool False), [])))\<close>

subsection \<open>Sample hosts and results\<close>

text \<open>
  What \<^verbatim>\<open>where powershell\<close> prints when the interpreter is found, and when it is not.
\<close>

definition where_found :: str where
  "where_found =
     lit ''C:'' @ [0x5C] @ lit ''Windows'' @ [0x5C] @ lit ''System32'' @ [0x5C] @
     lit ''WindowsPowerShell'' @ [0x5C] @ lit ''v1.0'' @ [0x5C] @ lit ''powershell.exe''"

definition where_missing :: str where
  "where_missing = lit ''INFO: Could not find files for the given pattern(s).''"

text \<open>
  A table of printable code points for the samples: right up to U+00FF, where only the
  controls from U+0080, the no-break space and the soft hyphen are not printable.
\<close>

definition sample_printable :: "nat \<Rightarrow> bool" where
  "sample_printable c = (0xA0 < c \<and> c \<noteq> 0xAD)"

text \<open>A host with the interpreter, answering every command with the same result.\<close>

definition host_replying :: "exec_result \<Rightarrow> host" where
  "host_replying ret =
     \<lparr>cmd_run = (\<lambda>args python_shell. Inr where_found),
      cmd_run_all = (\<lambda>cmd shell python_shell. Inr ret),
      isprintable = sample_printable\<rparr>"

text \<open>A host without the interpreter.\<close>

definition host_without_powershell :: host where
  "host_without_powershell =
     \<lparr>cmd_run = (\<lambda>args python_shell. Inr where_missing),
      cmd_run_all = (\<lambda>cmd shell python_shell.
        Inr \<lparr>pid = 1, retcode = 0, stdout = [], stderr = []\<rparr>),
      isprintable = sample_printable\<rparr>"

text \<open>A failure with one line of output, and one with two lines.\<close>

definition failed_result :: exec_result where
  "failed_result =
     \<lparr>pid = 4242, retcode = 1, stdout = lit ''New-VMSwitch : Access is denied.'', stderr = []\<rparr>"

definition multiline_result :: exec_result where
  "multiline_result =
     \<lparr>pid = 4242, retcode = 1,
      stdout = lit ''Access is denied.'' @ [0x0D, 0x0A] @ lit ''At line:1 char:1'',
      stderr = []\<rparr>"

text \<open>
  Successes: output that is blank, in ASCII and beyond it, one object, an array of two
  objects.
\<close>

definition blank_result :: exec_result where
  "blank_result = \<lparr>pid = 4242, retcode = 0, stdout = [0x0D, 0x0A], stderr = []\<rparr>"

definition unicode_blank_result :: exec_result where
  "unicode_blank_result =
     \<lparr>pid = 4242, retcode = 0, stdout = [0x1F, 0xA0, 0x3000, 0x0A], stderr = []\<rparr>"

definition one_switch :: exec_result where
  \<open>one_switch =
     \<lparr>pid = 4242, retcode = 0, stdout = lit ''{"Name":"sw0","SwitchType":1}'', stderr = []\<rparr>\<close>

definition two_switches :: exec_result where
  \<open>two_switches =
     \<lparr>pid = 4242, retcode = 0, stdout = lit ''[{"Name":"sw0"},{"Name":"sw1"}]'', stderr = []\<rparr>\<close>

text \<open>Names that are blank to \<^verbatim>\<open>strip\<close>: ASCII separators, and Unicode spaces.\<close>

definition blank_names :: "str list" where
  "blank_names = [[], lit ''  '', [0x1C], [0x1F], [0xA0], [0x3000], [0x09, 0x2003, 0x85]]"

text \<open>
  Text that \<^verbatim>\<open>repr\<close> leaves as it is: printable ASCII with neither the single quote
  nor the backslash.
\<close>

definition plain :: "str \<Rightarrow> bool" where
  "plain s = list_all (\<lambda>c. 0x20 \<le> c \<and> c < 0x7F \<and> c \<noteq> 0x27 \<and> c \<noteq> 0x5C) s"

section \<open>The decoder always consumes input\<close>

text \<open>
  A value that is read takes at least one character, so the tests
  \<open>length s \<le> length r\<close> in the two loops of the scanner never hold.
\<close>

lemma match_exp_le: "match_exp s = (e, r) \<Longrightarrow> length r \<le> length s"
  by (auto simp: match_exp_def split: list.splits if_splits prod.splits
      intro: le_trans [OF length_dropWhile_le])

lemma match_frac_le: "match_frac s = (e, r) \<Longrightarrow> length r \<le> length s"
  by (auto simp: match_frac_def split: list.splits if_splits
      intro: le_trans [OF length_dropWhile_le])

lemma match_integer_shorter: "match_integer s = Some (i, r) \<Longrightarrow> length r < length s"
  by (auto simp: match_integer_def less_Suc_eq_le split: list.splits if_splits prod.splits
      intro: le_trans [OF length_dropWhile_le])

lemma match_number_shorter: "match_number s = Some (v, r) \<Longrightarrow> length r < length s"
  by (auto simp: match_number_def split: option.splits prod.splits if_splits
      dest!: match_integer_shorter match_frac_le match_exp_le)

lemma scan_progress:
  "scan_once s = Inr (v, r) \<longrightarrow> length r < length s"
  "JSONArray vs s = Inr (v, r) \<longrightarrow> length r < length s"
  "JSONObject ps s = Inr (v, r) \<longrightarrow> length r < length s"
proof (induction s and vs s and ps s arbitrary: v r and v r and v r
    rule: scan_once_JSONArray_JSONObject.induct)
  case 1
  show ?case by simp
next
  case (2 c cs)
  show ?case
  proof
    assume res: "scan_once (c # cs) = Inr (v, r)"
    consider (str) "c = 0x22" | (obj) "c \<noteq> 0x22" "c = cp CHR ''{''"
      | (arr) "c \<noteq> 0x22" "c \<noteq> cp CHR ''{''" "c = cp CHR ''[''"
      | (atom) "c \<noteq> 0x22" "c \<noteq> cp CHR ''{''" "c \<noteq> cp CHR ''[''"
      by blast
    then show "length r < length (c # cs)"
    proof cases
      case str
      with res show ?thesis
        by (auto split: sum.splits dest: scanstring_shorter)
    next
      case obj
      with res obtain d r' where sk: "skip_ws cs = d # r'"
        by (auto split: list.splits)
      show ?thesis
      proof (cases "d = cp CHR ''}''")
        case True
        with res obj sk skip_ws_Cons [OF sk] show ?thesis by simp
      next
        case False
        with res obj sk have q: "d = 0x22" and rec: "JSONObject [] r' = Inr (v, r)"
          by (auto split: if_splits)
        from "2.IH"(1) [OF obj sk False q] rec have "length r < length r'" by simp
        with skip_ws_Cons [OF sk] show ?thesis by simp
      qed
    next
      case arr
      with res obtain d r' where sk: "skip_ws cs = d # r'"
        by (auto split: list.splits)
      show ?thesis
      proof (cases "d = cp CHR '']''")
        case True
        with res arr sk skip_ws_Cons [OF sk] show ?thesis by simp
      next
        case False
        with res arr sk have rec: "JSONArray [] (d # r') = Inr (v, r)"
          by simp
        from "2.IH"(2) [OF arr sk False] rec have "length r < length (d # r')" by simp
        with skip_ws_Cons [OF sk] show ?thesis by simp
      qed
    next
      case atom
      with res show ?thesis
        by (auto split: if_splits option.splits dest: match_number_shorter)
    qed
  qed
next
  case (3 "values" s)
  show ?case
  proof
    assume res: "JSONArray values s = Inr (v, r)"
    then obtain v1 r1 where s1: "scan_once s = Inr (v1, r1)"
      by (auto split: sum.splits)
    with res have lt: "\<not> length s \<le> length r1"
      by (auto split: if_splits)
    with res s1 obtain d r' where sk: "skip_ws r1 = d # r'"
      by (auto split: list.splits)
    show "length r < length s"
    proof (cases "d = cp CHR '']''")
      case True
      with res s1 lt sk skip_ws_Cons [OF sk] show ?thesis by simp
    next
      case False
      with res s1 lt sk have c: "d = cp CHR '',''"
        and rec: "JSONArray (values @ [v1]) (skip_ws r') = Inr (v, r)"
        by (auto split: if_splits)
      from "3.IH"(2) [OF s1 refl lt sk False c] rec
      have "length r < length (skip_ws r')" by simp
      with skip_ws_le [of r'] skip_ws_Cons [OF sk] lt show ?thesis by simp
    qed
  qed
next
  case (4 pairs s)
  show ?case
  proof
    assume res: "JSONObject pairs s = Inr (v, r)"
    then obtain key r0 where k: "scanstring [] s = Inr (key, r0)"
      by (auto split: sum.splits)
    with res obtain d r1 where sk0: "skip_ws r0 = d # r1"
      by (auto split: list.splits)
    with res k have colon: "\<not> d \<noteq> cp CHR '':''"
      by (auto split: if_splits)
    with res k sk0 obtain v1 r2 where s1: "scan_once (skip_ws r1) = Inr (v1, r2)"
      by (auto split: sum.splits)
    with res k sk0 colon have lt: "\<not> length (skip_ws r1) \<le> length r2"
      by (auto split: if_splits)
    with res k sk0 colon s1 obtain d' r3 where sk2: "skip_ws r2 = d' # r3"
      by (auto split: list.splits)
    have bound: "length r3 < length s"
      using scanstring_shorter [OF k] skip_ws_Cons [OF sk0] skip_ws_le [of r1] lt
        skip_ws_Cons [OF sk2]
      by simp
    show "length r < length s"
    proof (cases "d' = cp CHR ''}''")
      case True
      with res k sk0 colon s1 lt sk2 bound show ?thesis by simp
    next
      case False
      with res k sk0 colon s1 lt sk2 have comma: "\<not> d' \<noteq> cp CHR '',''"
        by (auto split: if_splits)
      with res k sk0 colon s1 lt sk2 False obtain q r4 where sk3: "skip_ws r3 = q # r4"
        by (auto split: list.splits)
      with res k sk0 colon s1 lt sk2 False comma have q: "q = 0x22"
        and rec: "JSONObject (dict_set pairs key v1) r4 = Inr (v, r)"
        by (auto split: if_splits)
      from "4.IH"(2) [OF k refl sk0 colon s1 refl lt sk2 False comma sk3 q] rec
      have "length r < length r4" by simp
      with skip_ws_Cons [OF sk3] bound show ?thesis by simp
    qed
  qed
qed

text \<open>So the two loops are the loops of the decoder, with no test of their own.\<close>

lemma JSONArray_unfold:
  "JSONArray values s =
     (case scan_once s of
        Inl e \<Rightarrow> Inl e
      | Inr (v, r) \<Rightarrow>
          (case skip_ws r of
             [] \<Rightarrow> Inl (ValueError Expecting_comma_delimiter)
           | d # r' \<Rightarrow>
               if d = cp CHR '']'' then Inr (JArray (values @ [v]), r')
               else if d = cp CHR '','' then JSONArray (values @ [v]) (skip_ws r')
               else Inl (ValueError Expecting_comma_delimiter)))"
proof (cases "scan_once s")
  case (Inl e)
  then show ?thesis by (subst JSONArray.simps) simp
next
  case (Inr p)
  obtain v r where p: "p = (v, r)" by (cases p)
  with Inr scan_progress(1) [of s v r] have "\<not> length s \<le> length r" by simp
  with Inr p show ?thesis by (subst JSONArray.simps) simp
qed

lemma JSONObject_unfold:
  "JSONObject pairs s =
     (case scanstring [] s of
        Inl e \<Rightarrow> Inl e
      | Inr (key, r) \<Rightarrow>
          (case skip_ws r of
             [] \<Rightarrow> Inl (ValueError Expecting_colon_delimiter)
           | d # r1 \<Rightarrow>
               if d \<noteq> cp CHR '':'' then Inl (ValueError Expecting_colon_delimiter)
               else
                 (case scan_once (skip_ws r1) of
                    Inl e \<Rightarrow> Inl e
                  | Inr (v, r2) \<Rightarrow>
                      (case skip_ws r2 of
                         [] \<Rightarrow> Inl (ValueError Expecting_comma_delimiter)
                       | d' # r3 \<Rightarrow>
                           if d' = cp CHR ''}'' then Inr (JObject (dict_set pairs key v), r3)
                           else if d' \<noteq> cp CHR '','' then Inl (ValueError Expecting_comma_delimiter)
                           else
                             (case skip_ws r3 of
                                [] \<Rightarrow>
                                  Inl (ValueError Expecting_property_name)
                              | q # r4 \<Rightarrow>
                                  if q = 0x22 then JSONObject (dict_set pairs key v) r4
                                  else
                                    Inl (ValueError Expecting_property_name))))))"
proof -
  have dead: "\<not> length t \<le> length r2" if "scan_once t = Inr (v, r2)" for t v r2
    using that scan_progress(1) [of t v r2] by simp
  show ?thesis
    by (subst JSONObject.simps)
      (simp split: sum.splits list.splits prod.splits add: dead)
qed

section \<open>Text and its rendering\<close>

lemma lit_eq_iff: "lit a = lit b \<longleftrightarrow> a = b"
  by (simp add: lit_def inj_map_eq_map [OF inj_of_char])

lemma py_strip_blank_names: "list_all (\<lambda>n. py_strip n = []) blank_names"
  by (simp add: blank_names_def py_strip_def py_isspace_def lit_def)

lemma repr_char_plain:
  assumes "0x20 \<le> c" and "c < 0x7F" and "c \<noteq> 0x27" and "c \<noteq> 0x5C"
  shows "repr_char printable 0x27 c = [c]"
  using assms by (simp add: repr_char_def)

lemma concat_repr_char_plain:
  "plain s \<Longrightarrow> concat (map (repr_char printable 0x27) s) = s"
  by (induction s) (simp_all add: plain_def repr_char_plain)

lemma py_repr_plain:
  assumes "plain s"
  shows "py_repr printable s = [0x27] @ s @ [0x27]"
proof -
  from assms have "0x27 \<notin> set s"
    by (auto simp: plain_def list_all_iff)
  with assms show ?thesis
    by (simp add: py_repr_def concat_repr_char_plain)
qed

text \<open>The rendering of the dictionary holds the rendering of its status code and of its output.\<close>

lemma py_str_dict_retcode:
  "sublist (py_repr_int (retcode ret)) (py_str_dict printable ret)"
proof -
  have "py_str_dict printable ret =
      (lit ''{'' @ py_repr printable (lit ''pid'') @ lit '': '' @ digits (pid ret) @ lit '', '' @
       py_repr printable (lit ''retcode'') @ lit '': '') @
      py_repr_int (retcode ret) @
      (lit '', '' @ py_repr printable (lit ''stdout'') @ lit '': '' @
       py_repr printable (stdout ret) @ lit '', '' @
       py_repr printable (lit ''stderr'') @ lit '': '' @ py_repr printable (stderr ret) @ lit ''}'')"
    by (simp add: py_str_dict_def)
  then show ?thesis
    by (simp only: sublist_appendI)
qed

lemma py_str_dict_stdout:
  "sublist (py_repr printable (stdout ret)) (py_str_dict printable ret)"
proof -
  have "py_str_dict printable ret =
      (lit ''{'' @ py_repr printable (lit ''pid'') @ lit '': '' @ digits (pid ret) @ lit '', '' @
       py_repr printable (lit ''retcode'') @ lit '': '' @ py_repr_int (retcode ret) @ lit '', '' @
       py_repr printable (lit ''stdout'') @ lit '': '') @
      py_repr printable (stdout ret) @
      (lit '', '' @ py_repr printable (lit ''stderr'') @ lit '': '' @
       py_repr printable (stderr ret) @ lit ''}'')"
    by (simp add: py_str_dict_def)
  then show ?thesis
    by (simp only: sublist_appendI)
qed

lemma py_str_dict_plain_stdout:
  assumes "plain (stdout ret)"
  shows "sublist (stdout ret) (py_str_dict printable ret)"
proof -
  have "sublist (stdout ret) ([0x27] @ stdout ret @ [0x27])"
    by (rule sublist_appendI)
  with assms have "sublist (stdout ret) (py_repr printable (stdout ret))"
    by (simp add: py_repr_plain)
  then show ?thesis
    using py_str_dict_stdout by (rule sublist_order.order_trans)
qed

text \<open>The rendering of the two sample failures, as the interpreter prints them.\<close>

lemma py_str_dict_failed_result:
  "py_str_dict sample_printable failed_result =
     lit ''{'pid': 4242, 'retcode': 1, 'stdout': 'New-VMSwitch : Access is denied.', 'stderr': '' @
     [0x27, 0x27] @ lit ''}''"
  by code_simp

lemma py_str_dict_multiline_result:
  "py_str_dict sample_printable multiline_result =
     lit ''{'pid': 4242, 'retcode': 1, 'stdout': 'Access is denied.'' @ [0x5C] @ lit ''r'' @
     [0x5C] @ lit ''nAt line:1 char:1', 'stderr': '' @ [0x27, 0x27] @ lit ''}''"
  by code_simp

lemma multiline_result_not_literal:
  "\<not> sublist (stdout multiline_result) (py_str_dict sample_printable multiline_result)"
  by code_simp

section \<open>The command runner\<close>

lemma found_sample: "sublist (lit ''powershell'') where_found"
  by code_simp

lemma missing_sample: "\<not> sublist (lit ''powershell'') where_missing"
  by code_simp

lemma has_powershell_found:
  assumes "cmd_run h [lit ''where'', lit ''powershell''] False = Inr out"
    and "sublist (lit ''powershell'') out"
  shows "has_powershell h = (Inr True, [Cmd_run [lit ''where'', lit ''powershell''] False])"
  using assms by (simp add: has_powershell_def)

lemma has_powershell_missing:
  assumes "cmd_run h [lit ''where'', lit ''powershell''] False = Inr out"
    and "\<not> sublist (lit ''powershell'') out"
  shows "has_powershell h = (Inr False, [Cmd_run [lit ''where'', lit ''powershell''] False])"
  using assms by (simp add: has_powershell_def)

lemma json_loads_empty_array: "json_loads (lit ''[]'') = Inr (JArray [])"
  by (simp add: json_loads_def skip_ws_def json_ws_def lit_def)

lemma host_replying_simps:
  "cmd_run (host_replying ret) args False = Inr where_found"
  "cmd_run_all (host_replying ret) c shell False = Inr ret"
  "isprintable (host_replying ret) = sample_printable"
  by (simp_all add: host_replying_def)

text \<open>
  C2. Whatever the command and whether or not JSON output is asked for: when the
  interpreter is found and the invocation comes back with a status code other than
  zero, \<open>psrun\<close> raises the execution error whose message is \<^verbatim>\<open>str(ret)\<close>, the
  rendering of the whole captured result. The message holds the status code in decimal
  and the \<^verbatim>\<open>repr\<close> of the output text; it holds the output text itself when that
  is printable ASCII with neither a single quote nor a backslash.
\<close>

theorem psrun_nonzero_status_raises:
  assumes "cmd_run h [lit ''where'', lit ''powershell''] False = Inr out"
    and "sublist (lit ''powershell'') out"
    and "cmd_run_all h
           (if json_output then cmd @ lit '' | ConvertTo-Json -Depth 1 -Compress'' else cmd)
           (lit ''powershell'') False = Inr ret"
    and "retcode ret \<noteq> 0"
  shows "fst (psrun h cmd json_output) =
           Inl (CommandExecutionError (py_str_dict (isprintable h) ret)) \<and>
         sublist (py_repr_int (retcode ret)) (py_str_dict (isprintable h) ret) \<and>
         sublist (py_repr (isprintable h) (stdout ret)) (py_str_dict (isprintable h) ret) \<and>
         (plain (stdout ret) \<longrightarrow> sublist (stdout ret) (py_str_dict (isprintable h) ret))"
proof -
  have "has_powershell h = (Inr True, [Cmd_run [lit ''where'', lit ''powershell''] False])"
    using assms(1,2) by (rule has_powershell_found)
  with assms(3,4)
  have "fst (psrun h cmd json_output) =
      Inl (CommandExecutionError (py_str_dict (isprintable h) ret))"
    by (cases json_output) (simp_all add: psrun_def)
  then show ?thesis
    by (simp add: py_str_dict_retcode py_str_dict_stdout py_str_dict_plain_stdout)
qed

theorem psrun_nonzero_status_raises_witness:
  "retcode failed_result \<noteq> 0 \<and> plain (stdout failed_result) \<and>
   fst (psrun (host_replying failed_result) (lit ''Get-VMSwitch'') True) =
     Inl (CommandExecutionError (py_str_dict sample_printable failed_result)) \<and>
   fst (psrun (host_replying failed_result) (lit ''Get-VMSwitch'') False) =
     Inl (CommandExecutionError (py_str_dict sample_printable failed_result)) \<and>
   sublist (lit ''1'') (py_str_dict sample_printable failed_result) \<and>
   sublist (stdout failed_result) (py_str_dict sample_printable failed_result)"
proof -
  have r: "retcode failed_result \<noteq> 0" and p: "plain (stdout failed_result)"
    and i: "py_repr_int (retcode failed_result) = lit ''1''"
    by (simp_all add: failed_result_def plain_def py_repr_int_def lit_def)
  from psrun_nonzero_status_raises [of "host_replying failed_result" where_found True
      "lit ''Get-VMSwitch''" failed_result]
    psrun_nonzero_status_raises [of "host_replying failed_result" where_found False
      "lit ''Get-VMSwitch''" failed_result]
    found_sample r p i
  show ?thesis
    by (simp add: host_replying_simps)
qed

text \<open>
  The output text itself need not be in the message: the two-line output of the sample is
  there with its line break escaped, so it is no part of the message as it stands.
\<close>

theorem psrun_message_escapes_output:
  "retcode multiline_result \<noteq> 0 \<and>
   fst (psrun (host_replying multiline_result) (lit ''New-VMSwitch -Name sw0'') True) =
     Inl (CommandExecutionError (py_str_dict sample_printable multiline_result)) \<and>
   \<not> sublist (stdout multiline_result) (py_str_dict sample_printable multiline_result)"
proof -
  have r: "retcode multiline_result \<noteq> 0"
    by (simp add: multiline_result_def)
  have "has_powershell (host_replying multiline_result) =
      (Inr True, [Cmd_run [lit ''where'', lit ''powershell''] False])"
    using host_replying_simps(1) found_sample by (rule has_powershell_found)
  with r have "fst (psrun (host_replying multiline_result) (lit ''New-VMSwitch -Name sw0'') True) =
      Inl (CommandExecutionError (py_str_dict sample_printable multiline_result))"
    by (simp add: psrun_def host_replying_simps)
  with r multiline_result_not_literal show ?thesis
    by simp
qed

text \<open>
  C3. With JSON output asked for: when the interpreter is found, the invocation comes
  back with status zero and its output is empty once whitespace is stripped,
  \<open>psrun\<close> returns the empty list; the decoder is given the text \<^verbatim>\<open>[]\<close> and
  does not fail.
\<close>

theorem psrun_empty_output_is_empty_list:
  assumes "cmd_run h [lit ''where'', lit ''powershell''] False = Inr out"
    and "sublist (lit ''powershell'') out"
    and "cmd_run_all h (cmd @ lit '' | ConvertTo-Json -Depth 1 -Compress'') (lit ''powershell'')
           False = Inr ret"
    and "retcode ret = 0"
    and "py_strip (stdout ret) = []"
  shows "fst (psrun h cmd True) = Inr (PJson (JArray []))"
proof -
  have "has_powershell h = (Inr True, [Cmd_run [lit ''where'', lit ''powershell''] False])"
    using assms(1,2) by (rule has_powershell_found)
  then show ?thesis
    using assms(3,4,5) json_loads_empty_array by (simp add: psrun_def isinstance_list_def)
qed

theorem psrun_empty_output_is_empty_list_witness:
  "py_strip (stdout blank_result) = [] \<and> py_strip (stdout unicode_blank_result) = [] \<and>
   fst (psrun (host_replying blank_result) (lit ''Get-VMSwitch'') True) =
     Inr (PJson (JArray [])) \<and>
   fst (psrun (host_replying unicode_blank_result) (lit ''Get-VMSwitch'') True) =
     Inr (PJson (JArray []))"
proof -
  have r: "retcode blank_result = 0" "retcode unicode_blank_result = 0"
    and s: "py_strip (stdout blank_result) = []" "py_strip (stdout unicode_blank_result) = []"
    by (simp_all add: blank_result_def unicode_blank_result_def py_strip_def py_isspace_def)
  from psrun_empty_output_is_empty_list
      [OF host_replying_simps(1) found_sample host_replying_simps(2) r(1) s(1)]
    psrun_empty_output_is_empty_list
      [OF host_replying_simps(1) found_sample host_replying_simps(2) r(2) s(2)]
    s
  show ?thesis by simp
qed

lemma json_loads_one_switch:
  "json_loads (stdout one_switch) =
     Inr (JObject [(lit ''Name'', JStr (lit ''sw0'')), (lit ''SwitchType'', JInt 1)])"
  by code_simp

lemma json_loads_two_switches:
  "json_loads (stdout two_switches) =
     Inr (JArray [JObject [(lit ''Name'', JStr (lit ''sw0''))],
                  JObject [(lit ''Name'', JStr (lit ''sw1''))]])"
  by code_simp

lemma py_strip_samples:
  "py_strip (stdout one_switch) \<noteq> []" "py_strip (stdout two_switches) \<noteq> []"
  "py_strip (lit ''sw0'') \<noteq> []"
  by (simp_all add: one_switch_def two_switches_def py_strip_def py_isspace_def lit_def)

text \<open>
  C4. With JSON output asked for, the interpreter found, status zero and output that is
  not blank: when the decoded value is not a list, \<open>psrun\<close> returns the list whose
  only element is that value; when the output is a JSON array, \<open>psrun\<close> returns the
  list of its elements, as many as the array has and in the same order.
\<close>

theorem psrun_json_normalises:
  assumes "cmd_run h [lit ''where'', lit ''powershell''] False = Inr out"
    and "sublist (lit ''powershell'') out"
    and "cmd_run_all h (cmd @ lit '' | ConvertTo-Json -Depth 1 -Compress'') (lit ''powershell'')
           False = Inr ret"
    and "retcode ret = 0"
    and "py_strip (stdout ret) \<noteq> []"
    and "json_loads (stdout ret) = Inr x"
  shows "(\<not> isinstance_list x \<longrightarrow> fst (psrun h cmd True) = Inr (PJson (JArray [x]))) \<and>
         (\<forall>xs. x = JArray xs \<longrightarrow> fst (psrun h cmd True) = Inr (PJson (JArray xs)))"
proof -
  have "has_powershell h = (Inr True, [Cmd_run [lit ''where'', lit ''powershell''] False])"
    using assms(1,2) by (rule has_powershell_found)
  with assms(3-6)
  have "fst (psrun h cmd True) = Inr (PJson (if \<not> isinstance_list x then JArray [x] else x))"
    by (simp add: psrun_def)
  then show ?thesis
    by (simp add: isinstance_list_def)
qed

theorem psrun_json_normalises_witness:
  "retcode one_switch = 0 \<and> retcode two_switches = 0 \<and>
   fst (psrun (host_replying one_switch) (lit ''Get-VMSwitch'') True) =
     Inr (PJson (JArray
       [JObject [(lit ''Name'', JStr (lit ''sw0'')), (lit ''SwitchType'', JInt 1)]])) \<and>
   fst (psrun (host_replying two_switches) (lit ''Get-VMSwitch'') True) =
     Inr (PJson (JArray [JObject [(lit ''Name'', JStr (lit ''sw0''))],
                         JObject [(lit ''Name'', JStr (lit ''sw1''))]]))"
proof -
  have r: "retcode one_switch = 0" "retcode two_switches = 0"
    by (simp_all add: one_switch_def two_switches_def)
  from psrun_json_normalises [OF host_replying_simps(1) found_sample host_replying_simps(2)
        r(1) py_strip_samples(1) json_loads_one_switch]
    psrun_json_normalises [OF host_replying_simps(1) found_sample host_replying_simps(2)
        r(2) py_strip_samples(2) json_loads_two_switches]
    r
  show ?thesis by (simp add: isinstance_list_def)
qed

section \<open>Virtual switches\<close>

lemma py_strip_switch_types:
  "st \<in> {lit ''external'', lit ''internal'', lit ''private''} \<Longrightarrow> py_strip st \<noteq> []"
  by (auto simp: py_strip_def py_isspace_def lit_def)

lemma set_SWITCH_TYPES_values:
  "set SWITCH_TYPES_values = {lit ''external'', lit ''internal'', lit ''private''}"
  by (simp add: SWITCH_TYPES_values_def SWITCH_TYPES_def)

lemma add_vswitch_try:
  "fst (case psrun h cmd True of
          (Inl e, log) \<Rightarrow> (Inr (PBool False), log)
        | (Inr r, log) \<Rightarrow> (Inr (PBool True), log)) \<noteq> Inl e'"
  by (simp split: prod.splits sum.splits)

lemma psrun_failed_result:
  "psrun (host_replying failed_result) cmd True =
     (Inl (CommandExecutionError (py_str_dict sample_printable failed_result)),
      [Cmd_run [lit ''where'', lit ''powershell''] False,
       Cmd_run_all (cmd @ lit '' | ConvertTo-Json -Depth 1 -Compress'') (lit ''powershell'') False])"
proof -
  have "retcode failed_result \<noteq> 0"
    by (simp add: failed_result_def)
  with found_sample show ?thesis
    by (simp add: psrun_def has_powershell_def host_replying_simps)
qed

lemma psrun_blank_result:
  "psrun (host_replying blank_result) cmd True =
     (Inr (PJson (JArray [])),
      [Cmd_run [lit ''where'', lit ''powershell''] False,
       Cmd_run_all (cmd @ lit '' | ConvertTo-Json -Depth 1 -Compress'') (lit ''powershell'') False])"
proof -
  have "retcode blank_result = 0" "py_strip (stdout blank_result) = []"
    by (simp_all add: blank_result_def py_strip_def py_isspace_def)
  with found_sample json_loads_empty_array show ?thesis
    by (simp add: psrun_def has_powershell_def host_replying_simps isinstance_list_def)
qed

text \<open>
  C5. An \<open>add_vswitch\<close> call with a name that is not blank, one of the three switch
  types and, for an external switch, an interface, and a \<open>remove_vswitch\<close> call with a
  name that is not blank, run the command they build through \<open>psrun\<close>: if that raises,
  whatever the exception, the operation returns \<^verbatim>\<open>False\<close> and the exception is
  dropped; if it returns, the operation returns \<^verbatim>\<open>True\<close>.
\<close>

theorem vswitch_execution_error_is_False:
  "(py_strip n \<noteq> [] \<and> st \<in> {lit ''external'', lit ''internal'', lit ''private''} \<and>
      (st = lit ''external'' \<longrightarrow> kwargs (lit ''interface'') = Some i) \<longrightarrow>
      add_vswitch h (Some n) (Some st) kwargs =
        (case psrun h (lit ''New-VMSwitch'' @ lit '' -Name '' @ n @
                (if st = lit ''external'' then lit '' -NetAdapterName '' @ i
                 else lit '' -SwitchType '' @ st)) True of
           (Inl e, log) \<Rightarrow> (Inr (PBool False), log)
         | (Inr r, log) \<Rightarrow> (Inr (PBool True), log))) \<and>
   (py_strip n \<noteq> [] \<longrightarrow>
      remove_vswitch h (Some n) kwargs =
        (case psrun h (lit ''Remove-VMSwitch -Force'' @ lit '' -Name '' @ n) True of
           (Inl e, log) \<Rightarrow> (Inr (PBool False), log)
         | (Inr r, log) \<Rightarrow> (Inr (PBool True), log)))"
proof (intro conjI impI)
  assume a: "py_strip n \<noteq> [] \<and> st \<in> {lit ''external'', lit ''internal'', lit ''private''} \<and>
      (st = lit ''external'' \<longrightarrow> kwargs (lit ''interface'') = Some i)"
  then have blank: "py_strip st \<noteq> []"
    by (simp add: py_strip_switch_types)
  from a consider (ext) "st = lit ''external''" "kwargs (lit ''interface'') = Some i"
    | (int) "st = lit ''internal''" | (priv) "st = lit ''private''"
    by auto
  then show "add_vswitch h (Some n) (Some st) kwargs =
        (case psrun h (lit ''New-VMSwitch'' @ lit '' -Name '' @ n @
                (if st = lit ''external'' then lit '' -NetAdapterName '' @ i
                 else lit '' -SwitchType '' @ st)) True of
           (Inl e, log) \<Rightarrow> (Inr (PBool False), log)
         | (Inr r, log) \<Rightarrow> (Inr (PBool True), log))"
  proof cases
    case ext
    with a blank show ?thesis
      by (simp add: add_vswitch_def set_SWITCH_TYPES_values SWITCH_TYPES_def lit_eq_iff)
  next
    case int
    with a blank show ?thesis
      by (simp add: add_vswitch_def set_SWITCH_TYPES_values SWITCH_TYPES_def lit_eq_iff)
  next
    case priv
    with a blank show ?thesis
      by (simp add: add_vswitch_def set_SWITCH_TYPES_values SWITCH_TYPES_def lit_eq_iff)
  qed
next
  assume "py_strip n \<noteq> []"
  then show "remove_vswitch h (Some n) kwargs =
        (case psrun h (lit ''Remove-VMSwitch -Force'' @ lit '' -Name '' @ n) True of
           (Inl e, log) \<Rightarrow> (Inr (PBool False), log)
         | (Inr r, log) \<Rightarrow> (Inr (PBool True), log))"
    by (simp add: remove_vswitch_def)
qed

theorem vswitch_execution_error_is_False_witness:
  "add_vswitch (host_replying failed_result) (Some (lit ''sw0'')) (Some (lit ''external''))
     [lit ''interface'' \<mapsto> lit ''Ethernet''] =
     (Inr (PBool False),
      [Cmd_run [lit ''where'', lit ''powershell''] False,
       Cmd_run_all
         (lit ''New-VMSwitch -Name sw0 -NetAdapterName Ethernet | ConvertTo-Json -Depth 1 -Compress'')
         (lit ''powershell'') False]) \<and>
   remove_vswitch (host_replying failed_result) (Some (lit ''sw0'')) Map.empty =
     (Inr (PBool False),
      [Cmd_run [lit ''where'', lit ''powershell''] False,
       Cmd_run_all (lit ''Remove-VMSwitch -Force -Name sw0 | ConvertTo-Json -Depth 1 -Compress'')
         (lit ''powershell'') False]) \<and>
   add_vswitch (host_replying blank_result) (Some (lit ''sw0'')) (Some (lit ''private'')) Map.empty =
     (Inr (PBool True),
      [Cmd_run [lit ''where'', lit ''powershell''] False,
       Cmd_run_all
         (lit ''New-VMSwitch -Name sw0 -SwitchType private | ConvertTo-Json -Depth 1 -Compress'')
         (lit ''powershell'') False]) \<and>
   remove_vswitch (host_replying blank_result) (Some (lit ''sw0'')) Map.empty =
     (Inr (PBool True),
      [Cmd_run [lit ''where'', lit ''powershell''] False,
       Cmd_run_all (lit ''Remove-VMSwitch -Force -Name sw0 | ConvertTo-Json -Depth 1 -Compress'')
         (lit ''powershell'') False])"
  using py_strip_samples(3)
    vswitch_execution_error_is_False [where h = "host_replying failed_result"
      and n = "lit ''sw0''" and st = "lit ''external''"
      and kwargs = "[lit ''interface'' \<mapsto> lit ''Ethernet'']" and i = "lit ''Ethernet''"]
    vswitch_execution_error_is_False [where h = "host_replying failed_result"
      and n = "lit ''sw0''" and st = "lit ''private''" and kwargs = "Map.empty"]
    vswitch_execution_error_is_False [where h = "host_replying blank_result"
      and n = "lit ''sw0''" and st = "lit ''private''" and kwargs = "Map.empty"]
  by (simp add: psrun_failed_result psrun_blank_result lit_eq_iff) (simp add: lit_def)

text \<open>
  C6. \<open>add_vswitch\<close> with a name that is not blank, the type \<^verbatim>\<open>external\<close> and no
  \<^verbatim>\<open>interface\<close> argument raises the invalid-argument error, and the log of host
  calls is empty: nothing was run, not even the search for the interpreter.
\<close>

theorem add_vswitch_external_needs_interface:
  assumes "py_strip n \<noteq> []" and "kwargs (lit ''interface'') = None"
  shows "add_vswitch h (Some n) (Some (lit ''external'')) kwargs =
           (Inl (SaltInvocationError (lit ''no interface name specified for external vswitch'')), [])"
proof -
  have "py_strip (lit ''external'') \<noteq> []"
    by (simp add: py_strip_switch_types)
  with assms show ?thesis
    by (simp add: add_vswitch_def set_SWITCH_TYPES_values SWITCH_TYPES_def lit_eq_iff)
qed

theorem add_vswitch_external_needs_interface_witness:
  "py_strip (lit ''sw0'') \<noteq> [] \<and>
   add_vswitch (host_replying blank_result) (Some (lit ''sw0'')) (Some (lit ''external''))
     Map.empty =
     (Inl (SaltInvocationError (lit ''no interface name specified for external vswitch'')), [])"
  using py_strip_samples(3)
    add_vswitch_external_needs_interface [where h = "host_replying blank_result"
      and n = "lit ''sw0''" and kwargs = "Map.empty"]
  by simp

text \<open>
  C7. \<open>add_vswitch\<close> raises an invalid-argument error exactly when the name is
  missing or blank, or the type is missing or blank, or the type is none of
  \<^verbatim>\<open>external\<close>, \<^verbatim>\<open>internal\<close>, \<^verbatim>\<open>private\<close>, or the type is external and no
  interface is given. In particular, with a name that is not blank, one of the three
  types and an interface for the external one, it raises nothing at all.
\<close>

theorem add_vswitch_invalid_argument_iff:
  "((\<exists>m. fst (add_vswitch h name switchtype kwargs) = Inl (SaltInvocationError m)) \<longleftrightarrow>
      (name = None \<or> (\<exists>n. name = Some n \<and> py_strip n = [])) \<or>
      (switchtype = None \<or> (\<exists>st. switchtype = Some st \<and> py_strip st = [])) \<or>
      (\<exists>st. switchtype = Some st \<and> st \<notin> {lit ''external'', lit ''internal'', lit ''private''}) \<or>
      (switchtype = Some (lit ''external'') \<and> kwargs (lit ''interface'') = None)) \<and>
   (\<forall>n st. name = Some n \<and> py_strip n \<noteq> [] \<and> switchtype = Some st \<and>
        st \<in> {lit ''external'', lit ''internal'', lit ''private''} \<and>
        (st = lit ''external'' \<longrightarrow> kwargs (lit ''interface'') \<noteq> None) \<longrightarrow>
        (\<forall>e. fst (add_vswitch h name switchtype kwargs) \<noteq> Inl e))"
proof -
  have valid: "\<forall>e. fst (add_vswitch h (Some n) (Some st) kwargs) \<noteq> Inl e"
    if "py_strip n \<noteq> []" "st \<in> {lit ''external'', lit ''internal'', lit ''private''}"
      "st = lit ''external'' \<longrightarrow> kwargs (lit ''interface'') \<noteq> None" for n st
  proof -
    from that(2) have "py_strip st \<noteq> []" by (rule py_strip_switch_types)
    with that show ?thesis
      by (auto simp: add_vswitch_def set_SWITCH_TYPES_values SWITCH_TYPES_def add_vswitch_try
          lit_eq_iff)
  qed
  have invalid: "\<exists>m. fst (add_vswitch h name switchtype kwargs) = Inl (SaltInvocationError m)"
    if "(name = None \<or> (\<exists>n. name = Some n \<and> py_strip n = [])) \<or>
      (switchtype = None \<or> (\<exists>st. switchtype = Some st \<and> py_strip st = [])) \<or>
      (\<exists>st. switchtype = Some st \<and> st \<notin> {lit ''external'', lit ''internal'', lit ''private''}) \<or>
      (switchtype = Some (lit ''external'') \<and> kwargs (lit ''interface'') = None)"
  proof (cases name)
    case None
    then show ?thesis by (simp add: add_vswitch_def)
  next
    case n: (Some n)
    show ?thesis
    proof (cases "py_strip n = []")
      case True
      with n show ?thesis by (simp add: add_vswitch_def)
    next
      case name_ok: False
      show ?thesis
      proof (cases switchtype)
        case None
        with n name_ok show ?thesis by (simp add: add_vswitch_def)
      next
        case st: (Some st)
        show ?thesis
        proof (cases "py_strip st = []")
          case True
          with n name_ok st show ?thesis by (simp add: add_vswitch_def)
        next
          case type_ok: False
          show ?thesis
          proof (cases "st \<in> {lit ''external'', lit ''internal'', lit ''private''}")
            case False
            with n name_ok st type_ok show ?thesis
              by (simp add: add_vswitch_def set_SWITCH_TYPES_values)
          next
            case True
            with that n name_ok st type_ok
            have "st = lit ''external''" "kwargs (lit ''interface'') = None"
              by auto
            with n name_ok st type_ok show ?thesis
              by (simp add: add_vswitch_def set_SWITCH_TYPES_values SWITCH_TYPES_def lit_eq_iff)
          qed
        qed
      qed
    qed
  qed
  show ?thesis
  proof (intro conjI iffI allI impI)
    assume "\<exists>m. fst (add_vswitch h name switchtype kwargs) = Inl (SaltInvocationError m)"
    then obtain m where m: "fst (add_vswitch h name switchtype kwargs) = Inl (SaltInvocationError m)"
      by blast
    show "(name = None \<or> (\<exists>n. name = Some n \<and> py_strip n = [])) \<or>
      (switchtype = None \<or> (\<exists>st. switchtype = Some st \<and> py_strip st = [])) \<or>
      (\<exists>st. switchtype = Some st \<and> st \<notin> {lit ''external'', lit ''internal'', lit ''private''}) \<or>
      (switchtype = Some (lit ''external'') \<and> kwargs (lit ''interface'') = None)"
    proof (rule ccontr)
      assume neg: "\<not> ?thesis"
      then obtain n st where "name = Some n" "py_strip n \<noteq> []" "switchtype = Some st"
        "st \<in> {lit ''external'', lit ''internal'', lit ''private''}"
        "st = lit ''external'' \<longrightarrow> kwargs (lit ''interface'') \<noteq> None"
        by (cases name; cases switchtype) auto
      with valid [of n st] m show False by simp
    qed
  next
    assume "(name = None \<or> (\<exists>n. name = Some n \<and> py_strip n = [])) \<or>
      (switchtype = None \<or> (\<exists>st. switchtype = Some st \<and> py_strip st = [])) \<or>
      (\<exists>st. switchtype = Some st \<and> st \<notin> {lit ''external'', lit ''internal'', lit ''private''}) \<or>
      (switchtype = Some (lit ''external'') \<and> kwargs (lit ''interface'') = None)"
    then show "\<exists>m. fst (add_vswitch h name switchtype kwargs) = Inl (SaltInvocationError m)"
      by (rule invalid)
  next
    fix n st e
    assume "name = Some n \<and> py_strip n \<noteq> [] \<and> switchtype = Some st \<and>
        st \<in> {lit ''external'', lit ''internal'', lit ''private''} \<and>
        (st = lit ''external'' \<longrightarrow> kwargs (lit ''interface'') \<noteq> None)"
    with valid [of n st] show "fst (add_vswitch h name switchtype kwargs) \<noteq> Inl e"
      by simp
  qed
qed

theorem add_vswitch_invalid_argument_iff_witness:
  "(\<exists>m. fst (add_vswitch (host_replying blank_result) (Some (lit ''sw0'')) (Some (lit ''bridged''))
            Map.empty) = Inl (SaltInvocationError m)) \<and>
   (\<exists>m. fst (add_vswitch (host_replying blank_result) (Some (lit ''  '')) (Some (lit ''private''))
            Map.empty) = Inl (SaltInvocationError m)) \<and>
   (\<exists>m. fst (add_vswitch (host_replying blank_result) (Some [0x1F]) (Some (lit ''private''))
            Map.empty) = Inl (SaltInvocationError m)) \<and>
   (\<exists>m. fst (add_vswitch (host_replying blank_result) (Some [0xA0, 0x3000]) (Some (lit ''private''))
            Map.empty) = Inl (SaltInvocationError m)) \<and>
   \<not> (\<exists>m. fst (add_vswitch (host_replying failed_result) (Some (lit ''sw0''))
              (Some (lit ''internal'')) Map.empty) = Inl (SaltInvocationError m))"
  using py_strip_samples(3)
    add_vswitch_invalid_argument_iff [where h = "host_replying blank_result"
      and name = "Some (lit ''sw0'')" and switchtype = "Some (lit ''bridged'')"
      and kwargs = "Map.empty"]
    add_vswitch_invalid_argument_iff [where h = "host_replying blank_result"
      and name = "Some (lit ''  '')" and switchtype = "Some (lit ''private'')"
      and kwargs = "Map.empty"]
    add_vswitch_invalid_argument_iff [where h = "host_replying blank_result"
      and name = "Some [0x1F]" and switchtype = "Some (lit ''private'')"
      and kwargs = "Map.empty"]
    add_vswitch_invalid_argument_iff [where h = "host_replying blank_result"
      and name = "Some [0xA0, 0x3000]" and switchtype = "Some (lit ''private'')"
      and kwargs = "Map.empty"]
    add_vswitch_invalid_argument_iff [where h = "host_replying failed_result"
      and name = "Some (lit ''sw0'')" and switchtype = "Some (lit ''internal'')"
      and kwargs = "Map.empty"]
  by (simp add: py_strip_def py_isspace_def lit_eq_iff) (simp add: lit_def)

section \<open>A host without the interpreter\<close>

text \<open>
  C1. On a host where \<^verbatim>\<open>where powershell\<close> does not name the interpreter,
  \<open>psrun\<close> makes no call of \<^verbatim>\<open>cmd.run_all\<close>, and its caller gets no failure:
  the result is \<^verbatim>\<open>None\<close>, returned normally, and \<open>add_vswitch\<close> on top of it
  answers \<^verbatim>\<open>True\<close>. The evaluation is at the sample host without the interpreter.
\<close>

theorem missing_powershell_reports_success:
  "psrun host_without_powershell (lit ''Get-VMSwitch'') True =
     (Inr PNone, [Cmd_run [lit ''where'', lit ''powershell''] False]) \<and>
   add_vswitch host_without_powershell (Some (lit ''sw0'')) (Some (lit ''private'')) Map.empty =
     (Inr (PBool True), [Cmd_run [lit ''where'', lit ''powershell''] False])"
proof -
  have no: "has_powershell host_without_powershell =
      (Inr False, [Cmd_run [lit ''where'', lit ''powershell''] False])"
    using missing_sample by (simp add: has_powershell_def host_without_powershell_def)
  then have run: "psrun host_without_powershell c True =
      (Inr PNone, [Cmd_run [lit ''where'', lit ''powershell''] False])" for c
    by (simp add: psrun_def)
  have "py_strip (lit ''sw0'') \<noteq> []" "py_strip (lit ''private'') \<noteq> []"
    by (simp_all add: py_strip_def py_isspace_def lit_def)
  then have "add_vswitch host_without_powershell (Some (lit ''sw0'')) (Some (lit ''private''))
      Map.empty = (Inr (PBool True), [Cmd_run [lit ''where'', lit ''powershell''] False])"
    by (simp add: add_vswitch_def set_SWITCH_TYPES_values SWITCH_TYPES_def run lit_eq_iff)
  with run show ?thesis by simp
qed

text \<open>
  C10. When the output of \<^verbatim>\<open>where powershell\<close> does not contain the word,
  \<open>psrun\<close> returns \<^verbatim>\<open>None\<close> and raises nothing, having made that one host call
  only; so \<open>add_vswitch\<close> and \<open>remove_vswitch\<close> with valid arguments return
  \<^verbatim>\<open>True\<close> although no command was executed.
\<close>

theorem missing_powershell_is_silent:
  assumes "cmd_run h [lit ''where'', lit ''powershell''] False = Inr out"
    and "\<not> sublist (lit ''powershell'') out"
  shows "psrun h cmd json_output = (Inr PNone, [Cmd_run [lit ''where'', lit ''powershell''] False]) \<and>
    (\<forall>n st. py_strip n \<noteq> [] \<and> st \<in> {lit ''external'', lit ''internal'', lit ''private''} \<and>
        (st = lit ''external'' \<longrightarrow> kwargs (lit ''interface'') \<noteq> None) \<longrightarrow>
        add_vswitch h (Some n) (Some st) kwargs =
          (Inr (PBool True), [Cmd_run [lit ''where'', lit ''powershell''] False])) \<and>
    (\<forall>n. py_strip n \<noteq> [] \<longrightarrow>
        remove_vswitch h (Some n) kwargs =
          (Inr (PBool True), [Cmd_run [lit ''where'', lit ''powershell''] False]))"
proof -
  have no: "has_powershell h = (Inr False, [Cmd_run [lit ''where'', lit ''powershell''] False])"
    using assms by (rule has_powershell_missing)
  then have run: "psrun h c j = (Inr PNone, [Cmd_run [lit ''where'', lit ''powershell''] False])"
    for c j
    by (simp add: psrun_def)
  have add: "add_vswitch h (Some n) (Some st) kwargs =
          (Inr (PBool True), [Cmd_run [lit ''where'', lit ''powershell''] False])"
    if "py_strip n \<noteq> []" "st \<in> {lit ''external'', lit ''internal'', lit ''private''}"
      "st = lit ''external'' \<longrightarrow> kwargs (lit ''interface'') \<noteq> None" for n st
  proof -
    from that(2) have "py_strip st \<noteq> []" by (rule py_strip_switch_types)
    with that show ?thesis
      by (auto simp: add_vswitch_def set_SWITCH_TYPES_values SWITCH_TYPES_def run lit_eq_iff)
  qed
  have remove: "remove_vswitch h (Some n) kwargs =
          (Inr (PBool True), [Cmd_run [lit ''where'', lit ''powershell''] False])"
    if "py_strip n \<noteq> []" for n
    using that by (simp add: remove_vswitch_def run)
  from run add remove show ?thesis by blast
qed

theorem missing_powershell_is_silent_witness:
  "\<not> sublist (lit ''powershell'') where_missing \<and>
   psrun host_without_powershell (lit ''Get-VM'') True =
     (Inr PNone, [Cmd_run [lit ''where'', lit ''powershell''] False]) \<and>
   add_vswitch host_without_powershell (Some (lit ''sw0'')) (Some (lit ''external''))
     [lit ''interface'' \<mapsto> lit ''Ethernet''] =
     (Inr (PBool True), [Cmd_run [lit ''where'', lit ''powershell''] False]) \<and>
   remove_vswitch host_without_powershell (Some (lit ''sw0'')) Map.empty =
     (Inr (PBool True), [Cmd_run [lit ''where'', lit ''powershell''] False])"
  using missing_sample py_strip_samples(3)
    missing_powershell_is_silent [where h = host_without_powershell and out = where_missing
      and cmd = "lit ''Get-VM''" and json_output = True
      and kwargs = "[lit ''interface'' \<mapsto> lit ''Ethernet'']"]
    missing_powershell_is_silent [where h = host_without_powershell and out = where_missing
      and cmd = "lit ''Get-VM''" and json_output = True and kwargs = "Map.empty"]
  by (simp add: host_without_powershell_def)

section \<open>Network adapters\<close>

text \<open>
  C8. \<open>set_netadapter\<close> with the selector kind \<^verbatim>\<open>mac\<close> or \<^verbatim>\<open>name\<close> and
  neither a \<^verbatim>\<open>name\<close> nor a \<^verbatim>\<open>vlan\<close> keyword returns \<^verbatim>\<open>False\<close>, and the
  log of host calls is empty.
\<close>

theorem set_netadapter_nothing_requested:
  assumes "tgt_type \<in> {lit ''mac'', lit ''name''}"
    and "kwargs (lit ''name'') = None" and "kwargs (lit ''vlan'') = None"
  shows "set_netadapter h tgt tgt_type kwargs = (Inr (PBool False), [])"
  using assms by (auto simp: set_netadapter_def filter_properties_def lit_eq_iff)

theorem set_netadapter_nothing_requested_witness:
  "set_netadapter (host_replying blank_result) (lit ''00-15-5D-00-00-01'') (lit ''mac'')
     Map.empty = (Inr (PBool False), []) \<and>
   set_netadapter (host_replying blank_result) (lit ''Ethernet 5'') (lit ''name'') Map.empty =
     (Inr (PBool False), [])"
  using set_netadapter_nothing_requested [where h = "host_replying blank_result"
      and tgt = "lit ''00-15-5D-00-00-01''" and tgt_type = "lit ''mac''" and kwargs = "Map.empty"]
    set_netadapter_nothing_requested [where h = "host_replying blank_result"
      and tgt = "lit ''Ethernet 5''" and tgt_type = "lit ''name''" and kwargs = "Map.empty"]
  by simp

text \<open>
  C9. \<open>set_netadapter\<close> with a selector kind other than \<^verbatim>\<open>mac\<close> and
  \<^verbatim>\<open>name\<close> raises the invalid-argument error whatever the other arguments are,
  and the log of host calls is empty.
\<close>

theorem set_netadapter_bad_selector_kind:
  assumes "tgt_type \<notin> {lit ''mac'', lit ''name''}"
  shows "set_netadapter h tgt tgt_type kwargs =
           (Inl (SaltInvocationError (lit ''tgt_type '' @ tgt_type @ lit '' is not allowed'')), [])"
  using assms by (simp add: set_netadapter_def filter_properties_def)

theorem set_netadapter_bad_selector_kind_witness:
  "set_netadapter (host_replying blank_result) (lit ''Ethernet 5'') (lit ''guid'')
     [lit ''name'' \<mapsto> lit ''vnic0'', lit ''vlan'' \<mapsto> lit ''42''] =
     (Inl (SaltInvocationError (lit ''tgt_type guid is not allowed'')), [])"
  using set_netadapter_bad_selector_kind [where h = "host_replying blank_result"
      and tgt = "lit ''Ethernet 5''" and tgt_type = "lit ''guid''"
      and kwargs = "[lit ''name'' \<mapsto> lit ''vnic0'', lit ''vlan'' \<mapsto> lit ''42'']"]
  by (simp add: lit_eq_iff) (simp add: lit_def)

end
